theory Spec2Isabelle
  imports Main
begin

section \<open>JavaScript string primitives used by the application\<close>

text \<open>
  A JavaScript string is modelled as a \<open>string\<close>, a list of characters, one \<open>char\<close>
  per code unit; a \<open>char\<close> has 256 values, which covers the markers, the fixed texts
  and the white space below. The functions below are the library methods the sources call:
  \<^verbatim>\<open>includes\<close>, \<^verbatim>\<open>split\<close>, \<^verbatim>\<open>replace\<close> (string pattern: first occurrence
  only), \<^verbatim>\<open>replace\<close> with the global tag regexp of \<^verbatim>\<open>cleanResponse\<close>, and
  \<^verbatim>\<open>trim\<close>. Array indexing \<^verbatim>\<open>parts[i]\<close> yields \<^verbatim>\<open>undefined\<close> out of range,
  and calling \<^verbatim>\<open>.trim()\<close> on \<^verbatim>\<open>undefined\<close> throws a \<^verbatim>\<open>TypeError\<close>; both are
  written out.
\<close>

definition startsWith :: "string \<Rightarrow> string \<Rightarrow> bool" where
  "startsWith s m = (take (length m) s = m)"

text \<open>\<^verbatim>\<open>s.includes(m)\<close>: some position of \<open>s\<close> starts an occurrence of \<open>m\<close>.\<close>

fun includes_str :: "string \<Rightarrow> string \<Rightarrow> bool" where
  "includes_str [] m = (m = [])"
| "includes_str (c # cs) m = (if startsWith (c # cs) m then True else includes_str cs m)"

text \<open>
  \<^verbatim>\<open>s.split(sep)\<close>: the pieces of \<open>s\<close> between the successive, non-overlapping
  occurrences of \<open>sep\<close>, found from left to right. \<open>split_from sep cur s\<close> scans \<open>s\<close>
  with \<open>cur\<close> the piece collected so far. With the empty separator JavaScript splits
  into single code units.
\<close>

function split_from :: "string \<Rightarrow> string \<Rightarrow> string \<Rightarrow> string list" where
  "split_from sep cur s =
     (if sep \<noteq> [] \<and> startsWith s sep
      then cur # split_from sep [] (drop (length sep) s)
      else (case s of
              [] \<Rightarrow> [cur]
            | c # cs \<Rightarrow> split_from sep (cur @ [c]) cs))"
  by pat_completeness auto
termination
proof (relation "measure (\<lambda>(sep, cur, s). length s)")
  show "wf (measure (\<lambda>(sep, cur, s). length s))" by simp
next
  fix sep cur s :: string
  assume a: "sep \<noteq> [] \<and> startsWith s sep"
  then have "length sep \<le> length s"
    by (metis startsWith_def length_take min.cobounded1)
  with a show "((sep, [], drop (length sep) s), (sep, cur, s)) \<in> measure (\<lambda>(sep, cur, s). length s)"
    by (cases sep) auto
next
  fix sep cur s :: string and c cs
  assume "s = c # cs"
  then show "((sep, cur @ [c], cs), (sep, cur, s)) \<in> measure (\<lambda>(sep, cur, s). length s)"
    by simp
qed

declare split_from.simps [simp del]

definition split_str :: "string \<Rightarrow> string \<Rightarrow> string list" where
  "split_str s sep = (if sep = [] then map (\<lambda>c. [c]) s else split_from sep [] s)"

text \<open>\<^verbatim>\<open>parts[i]\<close>: \<open>None\<close> is JavaScript's \<^verbatim>\<open>undefined\<close>.\<close>

definition index :: "'a list \<Rightarrow> nat \<Rightarrow> 'a option" where
  "index xs i = (if i < length xs then Some (xs ! i) else None)"

text \<open>
  \<^verbatim>\<open>s.replace(pat, rep)\<close> with a string pattern: only the first occurrence is
  replaced. The call sites pass the replacement \<^verbatim>\<open>''\<close>, in which no \<^verbatim>\<open>$\<close> pattern
  occurs, so the replacement is inserted literally.
\<close>

fun replace_str :: "string \<Rightarrow> string \<Rightarrow> string \<Rightarrow> string" where
  "replace_str [] pat rep = (if pat = [] then rep else [])"
| "replace_str (c # cs) pat rep =
     (if startsWith (c # cs) pat then rep @ drop (length pat) (c # cs)
      else c # replace_str cs pat rep)"

text \<open>
  White space and line terminators removed by \<^verbatim>\<open>trim\<close>, as far as they are single
  code units below 256: TAB, LF, VT, FF, CR, SP and NBSP.
\<close>

definition isWhiteSpace :: "char \<Rightarrow> bool" where
  "isWhiteSpace c =
     (c \<in> set [CHR 0x09, CHR 0x0A, CHR 0x0B, CHR 0x0C, CHR 0x0D, CHR 0x20, CHR 0xA0])"

definition trim :: "string \<Rightarrow> string" where
  "trim s = rev (dropWhile isWhiteSpace (rev (dropWhile isWhiteSpace s)))"

text \<open>\<^verbatim>\<open>a || b\<close> on strings: the empty string is falsy.\<close>

definition or_else :: "string \<Rightarrow> string \<Rightarrow> string" where
  "or_else a b = (if a = [] then b else a)"

text \<open>\<^verbatim>\<open>x?.trim() || d\<close> where \<open>x\<close> may be \<^verbatim>\<open>undefined\<close>.\<close>

definition opt_trim_or :: "string option \<Rightarrow> string \<Rightarrow> string" where
  "opt_trim_or x d = (case x of None \<Rightarrow> d | Some t \<Rightarrow> or_else (trim t) d)"

definition RESPONSE :: string where
  "RESPONSE = ''[RESPONSE]''"

definition TRANSCRIPTION :: string where
  "TRANSCRIPTION = ''[TRANSCRIPTION]''"

text \<open>
  \<^verbatim>\<open>text.replace(/\[TRANSCRIPTION\]|\[RESPONSE\]/g, '')\<close>: every match of the
  alternation is removed, scanning from the left; at each position the first
  alternative is tried first.
\<close>

function remove_tags :: "string \<Rightarrow> string" where
  "remove_tags s =
     (if startsWith s TRANSCRIPTION then remove_tags (drop (length TRANSCRIPTION) s)
      else if startsWith s RESPONSE then remove_tags (drop (length RESPONSE) s)
      else (case s of [] \<Rightarrow> [] | c # cs \<Rightarrow> c # remove_tags cs))"
  by pat_completeness auto
termination
proof (relation "measure length")
  show "wf (measure length)" by simp
next
  fix s :: string
  assume "startsWith s TRANSCRIPTION"
  then have "length TRANSCRIPTION \<le> length s"
    by (metis startsWith_def length_take min.cobounded1)
  then show "(drop (length TRANSCRIPTION) s, s) \<in> measure length"
    by (simp add: TRANSCRIPTION_def)
next
  fix s :: string
  assume "startsWith s RESPONSE"
  then have "length RESPONSE \<le> length s"
    by (metis startsWith_def length_take min.cobounded1)
  then show "(drop (length RESPONSE) s, s) \<in> measure length"
    by (simp add: RESPONSE_def)
next
  fix s :: string and c cs
  assume "s = c # cs"
  then show "(cs, s) \<in> measure length" by simp
qed

declare remove_tags.simps [simp del]

section \<open>The reply parsers\<close>

text \<open>
  The recorder's \<^verbatim>\<open>onstop\<close> handler turns the raw reply of \<^verbatim>\<open>processAudio\<close> into a
  transcription and a response. The repository holds four versions of it. Each
  parser below returns the values of the two local variables after the branching,
  or the \<^verbatim>\<open>TypeError\<close> that \<^verbatim>\<open>parts[i].trim()\<close> throws on a missing piece.
\<close>

datatype js_error = TypeError

text \<open>\<^verbatim>\<open>x.trim()\<close> on an array element.\<close>

definition trim_of :: "string option \<Rightarrow> js_error + string" where
  "trim_of x = (case x of None \<Rightarrow> Inl TypeError | Some t \<Rightarrow> Inr (trim t))"

text \<open>\<^verbatim>\<open>src/App.tsx\<close>, first listing, lines 209-223: three branches.\<close>

definition parseReply :: "string \<Rightarrow> js_error + (string \<times> string)" where
  "parseReply result =
     (if includes_str result TRANSCRIPTION \<and> includes_str result RESPONSE then
        (let parts = split_str result RESPONSE in
         case index parts 0 of
           None \<Rightarrow> Inl TypeError
         | Some p0 \<Rightarrow>
             (case trim_of (index parts 1) of
                Inl e \<Rightarrow> Inl e
              | Inr response \<Rightarrow> Inr (trim (replace_str p0 TRANSCRIPTION []), response)))
      else if includes_str result RESPONSE then
        (let parts = split_str result RESPONSE in
         case trim_of (index parts 0) of
           Inl e \<Rightarrow> Inl e
         | Inr transcription \<Rightarrow>
             (case trim_of (index parts 1) of
                Inl e \<Rightarrow> Inl e
              | Inr response \<Rightarrow> Inr (transcription, response)))
      else Inr (''Audio processed'', result))"

text \<open>\<^verbatim>\<open>src/App.tsx\<close>, second listing, lines 535-540.\<close>

definition parseReply_2 :: "string \<Rightarrow> js_error + (string \<times> string)" where
  "parseReply_2 result =
     (if includes_str result RESPONSE then
        (let parts = split_str result RESPONSE in
         case index parts 0 of
           None \<Rightarrow> Inl TypeError
         | Some p0 \<Rightarrow>
             (case trim_of (index parts 1) of
                Inl e \<Rightarrow> Inl e
              | Inr resp \<Rightarrow> Inr (trim (replace_str p0 TRANSCRIPTION []), resp)))
      else Inr (result, result))"

text \<open>
  \<^verbatim>\<open>src/unnamed/part_002\<close>, lines 216-218: no test for the marker; optional
  chaining and a placeholder for each piece that is missing or empty.
\<close>

definition parseReply_part002 :: "string \<Rightarrow> js_error + (string \<times> string)" where
  "parseReply_part002 result =
     (let parts = split_str result RESPONSE;
          transcription = opt_trim_or (index parts 0) ''Unintelligible audio'';
          tutorResponse = opt_trim_or (index parts 1) ''I couldn't generate a response.''
      in Inr (transcription, tutorResponse))"

text \<open>\<^verbatim>\<open>src/unnamed/part_003\<close>, lines 66-72 and 170-180.\<close>

definition cleanResponse :: "string \<Rightarrow> js_error + string" where
  "cleanResponse text =
     (if includes_str text RESPONSE then trim_of (index (split_str text RESPONSE) 1)
      else Inr (trim (remove_tags text)))"

definition parseReply_part003 :: "string \<Rightarrow> js_error + (string \<times> string)" where
  "parseReply_part003 result =
     (if includes_str result RESPONSE then
        (let parts = split_str result RESPONSE in
         case index parts 0 of
           None \<Rightarrow> Inl TypeError
         | Some p0 \<Rightarrow>
             (case trim_of (index parts 1) of
                Inl e \<Rightarrow> Inl e
              | Inr resp \<Rightarrow> Inr (trim (replace_str p0 TRANSCRIPTION []), resp)))
      else (case cleanResponse result of
              Inl e \<Rightarrow> Inl e
            | Inr resp \<Rightarrow> Inr (''Audio message'', resp)))"

text \<open>
  Reference functions for stating what a parser returns: the text before the first
  occurrence of \<open>m\<close> in \<open>s\<close> (all of \<open>s\<close> when there is none) and the text after it.
\<close>

fun before_first :: "string \<Rightarrow> string \<Rightarrow> string" where
  "before_first [] m = []"
| "before_first (c # cs) m = (if startsWith (c # cs) m then [] else c # before_first cs m)"

fun after_first :: "string \<Rightarrow> string \<Rightarrow> string" where
  "after_first [] m = []"
| "after_first (c # cs) m =
     (if startsWith (c # cs) m then drop (length m) (c # cs) else after_first cs m)"

section \<open>Data model (\<^verbatim>\<open>types.ts\<close>) and application state\<close>

datatype Role = USER | TUTOR

datatype EnglishLevel = A1 | A2 | B1 | B2 | C1 | C2

datatype LanguageGoal = English | Russian

datatype PracticeMode = MENU | CONVERSATION | INTERVIEW | CUSTOM

text \<open>The run-time strings of the two union types.\<close>

fun level_str :: "EnglishLevel \<Rightarrow> string" where
  "level_str A1 = ''A1''"
| "level_str A2 = ''A2''"
| "level_str B1 = ''B1''"
| "level_str B2 = ''B2''"
| "level_str C1 = ''C1''"
| "level_str C2 = ''C2''"

fun goal_str :: "LanguageGoal \<Rightarrow> string" where
  "goal_str English = ''English''"
| "goal_str Russian = ''Russian''"

record User =
  user_username :: string
  user_level :: EnglishLevel
  user_targetLanguage :: LanguageGoal

text \<open>An entry of the users directory \<^verbatim>\<open>tutor_users_db\<close>.\<close>

record StoredUser =
  stored_password :: string
  stored_level :: EnglishLevel
  stored_targetLanguage :: LanguageGoal

text \<open>
  A message; its \<^verbatim>\<open>id\<close> (a random string) and \<^verbatim>\<open>timestamp\<close> (the clock) are
  not determined by the program's inputs and are left out.
\<close>

record Message =
  msg_role :: Role
  msg_text :: string

record Blob =
  blob_size :: nat
  blob_type :: string

text \<open>\<^verbatim>\<open>new Blob(chunks, { type })\<close>: the concatenation of the chunks.\<close>

definition new_Blob :: "Blob list \<Rightarrow> string \<Rightarrow> Blob" where
  "new_Blob chunks ty = \<lparr>blob_size = sum_list (map blob_size chunks), blob_type = ty\<rparr>"

text \<open>The calls made to \<^verbatim>\<open>tutorService\<close>, kept as a log to state which requests were sent.\<close>

datatype Request = SendMessage string | ProcessAudio Blob | GetSpeech string

text \<open>
  The state variables and refs of the component that the handlers below read or
  write, the two \<^verbatim>\<open>localStorage\<close> records (\<open>None\<close> when the key is absent) and
  the request log.
\<close>

record App =
  currentUser :: "User option"
  isRegistering :: bool
  authError :: string
  username :: string
  password :: string
  level :: EnglishLevel
  targetLanguage :: LanguageGoal
  messages :: "Message list"
  inputText :: string
  isProcessing :: bool
  processingStatus :: string
  isPlaying :: bool
  audioChunks :: "Blob list"
  tutor_user :: "User option"
  tutor_users_db :: "(string \<rightharpoonup> StoredUser) option"
  requests :: "Request list"

text \<open>
  A rejected promise or thrown value: \<open>Rejected m str\<close> is a value whose \<^verbatim>\<open>message\<close>
  property is \<open>m\<close> (\<open>None\<close> for \<^verbatim>\<open>undefined\<close>) and whose string conversion is \<open>str\<close>.
\<close>

datatype thrown = Internal js_error | Rejected "string option" string

fun err_message :: "thrown \<Rightarrow> string option" where
  "err_message (Internal TypeError) = Some ''Cannot read properties of undefined (reading 'trim')''"
| "err_message (Rejected m str) = m"

fun err_string :: "thrown \<Rightarrow> string" where
  "err_string (Internal TypeError) =
     ''TypeError: Cannot read properties of undefined (reading 'trim')''"
| "err_string (Rejected m str) = str"

text \<open>
  The remote service behind \<^verbatim>\<open>tutorService\<close>: what each call resolves to or rejects
  with, and whether decoding and starting the playback of a returned audio succeeds.
\<close>

record Remote =
  sendMessage :: "string \<Rightarrow> thrown + string"
  processAudio :: "Blob \<Rightarrow> thrown + string"
  getSpeech :: "string \<Rightarrow> thrown + string"
  decodeAudioData :: "string \<Rightarrow> bool"

section \<open>Session Configurator (\<^verbatim>\<open>GeminiTutorService\<close>)\<close>

text \<open>
  The service object's fields. \<^verbatim>\<open>this.targetLanguage\<close> holds the run-time string it
  was given; \<^verbatim>\<open>this.chat\<close> is represented by the system instruction the chat was
  created with (\<open>None\<close> before the first \<^verbatim>\<open>initChat\<close>).
\<close>

record GeminiTutorService =
  this_currentLevel :: EnglishLevel
  this_targetLanguage :: string
  this_currentMode :: PracticeMode
  this_customScenario :: string
  this_chat :: "string option"

text \<open>\<^verbatim>\<open>this.targetLanguage === 'English' ? 'English' : 'Russian'\<close>\<close>

definition tutorLang :: "string \<Rightarrow> string" where
  "tutorLang t = (if t = ''English'' then ''English'' else ''Russian'')"

text \<open>The \<^verbatim>\<open>switch\<close> on the practice mode, the same in both versions.\<close>

fun modeInstruction :: "PracticeMode \<Rightarrow> string \<Rightarrow> string" where
  "modeInstruction CONVERSATION scenario =
     ''Context: A casual everyday conversation. Be friendly and informal.''"
| "modeInstruction INTERVIEW scenario =
     ''Context: A formal job interview. You are a professional recruiter/hiring manager. Ask challenging interview questions.''"
| "modeInstruction CUSTOM scenario =
     ''Context: '' @ scenario @ ''. Adopt this persona/scenario strictly.''"
| "modeInstruction MENU scenario = ''Context: General practice.''"

text \<open>\<^verbatim>\<open>src/services/geminiService.ts\<close>, lines 20-74.\<close>

fun levelDescriptions :: "EnglishLevel \<Rightarrow> string" where
  "levelDescriptions A1 = ''Beginner. Use very simple words and short sentences.''"
| "levelDescriptions A2 =
     ''Elementary. Use simple language but start introducing basic past and future tenses.''"
| "levelDescriptions B1 = ''Intermediate. Use standard language. Focus on common expressions.''"
| "levelDescriptions B2 =
     ''Upper Intermediate. Use a rich vocabulary. Engage in deeper discussions.''"
| "levelDescriptions C1 = ''Advanced. Use sophisticated vocabulary and complex grammar.''"
| "levelDescriptions C2 = ''Proficiency. Speak naturally as a native professional would.''"

definition instructions :: "GeminiTutorService \<Rightarrow> string" where
  "instructions this =
     ''You are a friendly and professional '' @ tutorLang (this_targetLanguage this)
     @ '' Tutor. \<newline>    Current Student Level: '' @ level_str (this_currentLevel this)
     @ ''. '' @ levelDescriptions (this_currentLevel this)
     @ ''\<newline>    '' @ modeInstruction (this_currentMode this) (this_customScenario this)
     @ ''\<newline>    \<newline>    Your goals:\<newline>    1. Listen to the user's spoken or written ''
     @ tutorLang (this_targetLanguage this)
     @ ''.\<newline>    2. Politely correct any grammatical errors or awkward phrasing relative to their level.\<newline>    3. Maintain an encouraging conversation based on the context provided.\<newline>    4. Keep your responses short (2-3 sentences max) so they are suitable for voice playback.\<newline>    5. If the user makes a mistake, explain it briefly in ''
     @ tutorLang (this_targetLanguage this)
     @ ''.\<newline>    \<newline>    Output format: Provide your response in plain text. Do not use complex markdown.''"

definition initChat :: "GeminiTutorService \<Rightarrow> GeminiTutorService" where
  "initChat this = this\<lparr>this_chat := Some (instructions this)\<rparr>"

definition startSession ::
  "GeminiTutorService \<Rightarrow> EnglishLevel \<Rightarrow> string \<Rightarrow> PracticeMode \<Rightarrow> string \<Rightarrow> GeminiTutorService"
where
  "startSession this lvl lang md scenario =
     initChat (this\<lparr>this_currentLevel := lvl, this_targetLanguage := lang,
                     this_currentMode := md, this_customScenario := scenario\<rparr>)"

text \<open>
  \<^verbatim>\<open>src/unnamed/part_000\<close>, lines 16-64: the instruction is computed at each request
  from the fields that \<^verbatim>\<open>startSession\<close> has set.
\<close>

fun levelDescriptions_part000 :: "EnglishLevel \<Rightarrow> string" where
  "levelDescriptions_part000 A1 = ''Beginner. Use very simple words and short sentences.''"
| "levelDescriptions_part000 A2 =
     ''Elementary. Simple language but start introducing basic past and future tenses.''"
| "levelDescriptions_part000 B1 = ''Intermediate. Standard language. Focus on common expressions.''"
| "levelDescriptions_part000 B2 =
     ''Upper Intermediate. Use a rich vocabulary. Engage in deeper discussions.''"
| "levelDescriptions_part000 C1 = ''Advanced. Use sophisticated vocabulary and complex grammar.''"
| "levelDescriptions_part000 C2 = ''Proficiency. Speak naturally as a native professional would.''"

definition getSystemInstruction :: "GeminiTutorService \<Rightarrow> string" where
  "getSystemInstruction this =
     ''You are a friendly and professional '' @ tutorLang (this_targetLanguage this)
     @ '' Tutor. \<newline>    Current Student Level: '' @ level_str (this_currentLevel this)
     @ ''. '' @ levelDescriptions_part000 (this_currentLevel this)
     @ ''\<newline>    '' @ modeInstruction (this_currentMode this) (this_customScenario this)
     @ ''\<newline>    \<newline>    Your goals:\<newline>    1. Listen to the user's spoken or written input.\<newline>    2. Politely correct any grammatical errors or awkward phrasing relative to their level.\<newline>    3. Maintain an encouraging conversation.\<newline>    4. Keep your responses short (max 3 sentences) for voice playback.\<newline>    \<newline>    IMPORTANT: When processing audio, you must provide both a transcription of what you heard and your response.\<newline>    Format your entire response exactly like this:\<newline>    [TRANSCRIPTION] (what you heard the user say)\<newline>    [RESPONSE] (your correction and reply to the user)''"

definition startSession_part000 ::
  "GeminiTutorService \<Rightarrow> EnglishLevel \<Rightarrow> string \<Rightarrow> PracticeMode \<Rightarrow> string \<Rightarrow> GeminiTutorService"
where
  "startSession_part000 this lvl lang md scenario =
     this\<lparr>this_currentLevel := lvl, this_targetLanguage := lang,
          this_currentMode := md, this_customScenario := scenario\<rparr>"

section \<open>Local Identity Store (\<^verbatim>\<open>handleAuth\<close>)\<close>

text \<open>
  \<^verbatim>\<open>users[username]\<close> on the object that \<^verbatim>\<open>JSON.parse\<close> returns: an own property
  if there is one, else the property inherited from \<^verbatim>\<open>Object.prototype\<close> (a function
  or object, hence truthy and without a \<^verbatim>\<open>password\<close>), else \<^verbatim>\<open>undefined\<close>.
\<close>

definition Object_prototype_keys :: "string list" where
  "Object_prototype_keys =
     [''constructor'', ''__defineGetter__'', ''__defineSetter__'', ''hasOwnProperty'',
      ''__lookupGetter__'', ''__lookupSetter__'', ''isPrototypeOf'', ''propertyIsEnumerable'',
      ''toString'', ''valueOf'', ''__proto__'', ''toLocaleString'']"

datatype 'a property = Undefined | Inherited | Own 'a

definition get_property :: "(string \<rightharpoonup> 'a) \<Rightarrow> string \<Rightarrow> 'a property" where
  "get_property obj k =
     (case obj k of
        Some v \<Rightarrow> Own v
      | None \<Rightarrow> if k \<in> set Object_prototype_keys then Inherited else Undefined)"

text \<open>\<^verbatim>\<open>JSON.parse(localStorage.getItem('tutor_users_db') || '{}')\<close>\<close>

definition load_users :: "App \<Rightarrow> (string \<rightharpoonup> StoredUser)" where
  "load_users s = (case tutor_users_db s of None \<Rightarrow> Map.empty | Some users \<Rightarrow> users)"

text \<open>
  \<^verbatim>\<open>src/App.tsx\<close>, first listing, lines 66-94. In the login branch
  \<^verbatim>\<open>stored.targetLanguage || 'English'\<close> is \<^verbatim>\<open>stored.targetLanguage\<close>, both values of
  \<^verbatim>\<open>LanguageGoal\<close> being non-empty strings.
\<close>

definition handleAuth :: "App \<Rightarrow> App" where
  "handleAuth s0 =
     (let s = s0\<lparr>authError := []\<rparr> in
      if username s = [] \<or> password s = [] then s\<lparr>authError := ''Please fill in all fields''\<rparr>
      else
        let users = load_users s in
        if isRegistering s then
          (case get_property users (username s) of
             Undefined \<Rightarrow>
               (let newUser = \<lparr>user_username = username s, user_level = level s,
                                user_targetLanguage = targetLanguage s\<rparr>;
                    users' = users(username s \<mapsto>
                               \<lparr>stored_password = password s, stored_level = level s,
                                stored_targetLanguage = targetLanguage s\<rparr>)
                in s\<lparr>tutor_users_db := Some users', currentUser := Some newUser,
                      tutor_user := Some newUser\<rparr>)
           | Inherited \<Rightarrow> s\<lparr>authError := ''User already exists''\<rparr>
           | Own stored \<Rightarrow> s\<lparr>authError := ''User already exists''\<rparr>)
        else
          (case get_property users (username s) of
             Undefined \<Rightarrow> s\<lparr>authError := ''Invalid username or password''\<rparr>
           | Inherited \<Rightarrow> s\<lparr>authError := ''Invalid username or password''\<rparr>
           | Own stored \<Rightarrow>
               if stored_password stored = password s then
                 (let existingUser = \<lparr>user_username = username s, user_level = stored_level stored,
                                       user_targetLanguage = stored_targetLanguage stored\<rparr>
                  in s\<lparr>currentUser := Some existingUser, tutor_user := Some existingUser\<rparr>)
               else s\<lparr>authError := ''Invalid username or password''\<rparr>))"

text \<open>\<^verbatim>\<open>src/unnamed/part_003\<close>, lines 74-92: the error is not cleared first.\<close>

definition handleAuth_part003 :: "App \<Rightarrow> App" where
  "handleAuth_part003 s =
     (if username s = [] \<or> password s = [] then s\<lparr>authError := ''Please fill in all fields''\<rparr>
      else
        let users = load_users s in
        if isRegistering s then
          (case get_property users (username s) of
             Undefined \<Rightarrow>
               (let newUser = \<lparr>user_username = username s, user_level = level s,
                                user_targetLanguage = targetLanguage s\<rparr>;
                    users' = users(username s \<mapsto>
                               \<lparr>stored_password = password s, stored_level = level s,
                                stored_targetLanguage = targetLanguage s\<rparr>)
                in s\<lparr>tutor_users_db := Some users', currentUser := Some newUser,
                      tutor_user := Some newUser\<rparr>)
           | Inherited \<Rightarrow> s\<lparr>authError := ''Username already exists''\<rparr>
           | Own stored \<Rightarrow> s\<lparr>authError := ''Username already exists''\<rparr>)
        else
          (case get_property users (username s) of
             Undefined \<Rightarrow> s\<lparr>authError := ''Invalid credentials''\<rparr>
           | Inherited \<Rightarrow> s\<lparr>authError := ''Invalid credentials''\<rparr>
           | Own stored \<Rightarrow>
               if stored_password stored = password s then
                 (let user = \<lparr>user_username = username s, user_level = stored_level stored,
                               user_targetLanguage = stored_targetLanguage stored\<rparr>
                  in s\<lparr>currentUser := Some user, tutor_user := Some user\<rparr>)
               else s\<lparr>authError := ''Invalid credentials''\<rparr>))"

section \<open>Conversation handlers\<close>

text \<open>
  An asynchronous handler is modelled as one run from its start to the end of its
  \<^verbatim>\<open>finally\<close> block, every \<^verbatim>\<open>await\<close> resolved by the \<open>Remote\<close>; state updates
  happen in program order.
\<close>

definition addMessage :: "Role \<Rightarrow> string \<Rightarrow> App \<Rightarrow> App" where
  "addMessage r t s = s\<lparr>messages := messages s @ [\<lparr>msg_role = r, msg_text = t\<rparr>]\<rparr>"

definition call :: "Request \<Rightarrow> App \<Rightarrow> App" where
  "call r s = s\<lparr>requests := requests s @ [r]\<rparr>"

text \<open>
  \<^verbatim>\<open>playResponse\<close> (\<^verbatim>\<open>src/App.tsx\<close> lines 137-159, \<^verbatim>\<open>part_003\<close> lines 102-122),
  up to the point where the awaiting caller resumes: every failure is caught inside.
\<close>

definition playResponse :: "Remote \<Rightarrow> string \<Rightarrow> App \<Rightarrow> App" where
  "playResponse tutorService t s =
     (let s1 = call (GetSpeech t) (s\<lparr>isPlaying := True\<rparr>) in
      case getSpeech tutorService t of
        Inl err \<Rightarrow> s1\<lparr>isPlaying := False\<rparr>
      | Inr base64Audio \<Rightarrow>
          if base64Audio = [] then s1\<lparr>isPlaying := False\<rparr>
          else if decodeAudioData tutorService base64Audio then s1
          else s1\<lparr>isPlaying := False\<rparr>)"

text \<open>\<^verbatim>\<open>part_002\<close> lines 156-178: an empty audio returns without resetting the flag.\<close>

definition playResponse_part002 :: "Remote \<Rightarrow> string \<Rightarrow> App \<Rightarrow> App" where
  "playResponse_part002 tutorService t s =
     (let s1 = call (GetSpeech t) (s\<lparr>isPlaying := True\<rparr>) in
      case getSpeech tutorService t of
        Inl err \<Rightarrow> s1\<lparr>isPlaying := False\<rparr>
      | Inr base64Audio \<Rightarrow>
          if base64Audio = [] then s1
          else if decodeAudioData tutorService base64Audio then s1
          else s1\<lparr>isPlaying := False\<rparr>)"

text \<open>\<^verbatim>\<open>src/App.tsx\<close>, first listing, lines 161-177.\<close>

definition handleSendText :: "Remote \<Rightarrow> App \<Rightarrow> App" where
  "handleSendText tutorService s =
     (if trim (inputText s) = [] \<or> isProcessing s then s
      else
        let userText = inputText s;
            s1 = addMessage USER userText (s\<lparr>inputText := []\<rparr>);
            s2 = call (SendMessage userText)
                   (s1\<lparr>isProcessing := True, processingStatus := ''Thinking...''\<rparr>);
            s3 = (case sendMessage tutorService userText of
                    Inr response \<Rightarrow>
                      playResponse tutorService response (addMessage TUTOR response s2)
                  | Inl err \<Rightarrow>
                      addMessage TUTOR ''Sorry, I'm having trouble connecting to my brain.'' s2)
        in s3\<lparr>isProcessing := False\<rparr>)"

text \<open>\<^verbatim>\<open>part_003\<close>, lines 56-60: \<^verbatim>\<open>err?.message || String(err)\<close>.\<close>

definition handleError :: "thrown \<Rightarrow> App \<Rightarrow> App" where
  "handleError err s =
     (let errorMsg = (case err_message err of
                        None \<Rightarrow> err_string err
                      | Some m \<Rightarrow> or_else m (err_string err))
      in addMessage TUTOR
           (''I encountered an error: '' @ errorMsg
            @ ''. Please ensure you have a valid internet connection.'') s)"

text \<open>\<^verbatim>\<open>part_003\<close>, lines 124-143.\<close>

definition handleSendText_part003 :: "Remote \<Rightarrow> App \<Rightarrow> App" where
  "handleSendText_part003 tutorService s =
     (if trim (inputText s) = [] \<or> isProcessing s then s
      else
        let userText = inputText s;
            s1 = addMessage USER userText (s\<lparr>inputText := []\<rparr>);
            s2 = call (SendMessage userText)
                   (s1\<lparr>isProcessing := True, processingStatus := ''Thinking...''\<rparr>);
            s3 = (case sendMessage tutorService userText of
                    Inr rawResult \<Rightarrow>
                      (case cleanResponse rawResult of
                         Inr result \<Rightarrow>
                           playResponse tutorService result (addMessage TUTOR result s2)
                       | Inl e \<Rightarrow> handleError (Internal e) s2)
                  | Inl err \<Rightarrow> handleError err s2)
        in s3\<lparr>isProcessing := False\<rparr>)"

text \<open>
  The recorder's \<^verbatim>\<open>onstop\<close> handler of \<^verbatim>\<open>src/App.tsx\<close>, first listing, lines 200-235;
  \<open>mimeType\<close> is the value captured by \<^verbatim>\<open>startRecording\<close>. There is no test of the
  clip's size. In the \<^verbatim>\<open>catch\<close> block \<^verbatim>\<open>"..." + err.message\<close> prints an undefined
  message as \<^verbatim>\<open>undefined\<close>.
\<close>

definition onstop :: "Remote \<Rightarrow> string \<Rightarrow> App \<Rightarrow> App" where
  "onstop tutorService mimeType s =
     (let audioBlob = new_Blob (audioChunks s) (or_else mimeType ''audio/wav'');
          s1 = call (ProcessAudio audioBlob)
                 (s\<lparr>isProcessing := True, processingStatus := ''Transcribing your voice...''\<rparr>);
          catch = (\<lambda>err. addMessage TUTOR
                     (''I couldn't hear you clearly. Error: ''
                      @ (case err_message err of None \<Rightarrow> ''undefined'' | Some m \<Rightarrow> m)) s1);
          s2 = (case processAudio tutorService audioBlob of
                  Inl err \<Rightarrow> catch err
                | Inr result \<Rightarrow>
                    (case parseReply result of
                       Inl e \<Rightarrow> catch (Internal e)
                     | Inr (transcription, response) \<Rightarrow>
                         playResponse tutorService response
                           (addMessage TUTOR response
                              (addMessage USER
                                 (or_else transcription
                                    ''I heard something but couldn't transcribe it.'') s1))))
      in s2\<lparr>isProcessing := False, processingStatus := []\<rparr>)"

text \<open>\<^verbatim>\<open>part_002\<close>, lines 211-228: a failure is only logged to the console.\<close>

definition onstop_part002 :: "Remote \<Rightarrow> App \<Rightarrow> App" where
  "onstop_part002 tutorService s =
     (let audioBlob = new_Blob (audioChunks s) ''audio/webm'';
          s1 = call (ProcessAudio audioBlob) (s\<lparr>isProcessing := True\<rparr>);
          s2 = (case processAudio tutorService audioBlob of
                  Inl err \<Rightarrow> s1
                | Inr result \<Rightarrow>
                    (case parseReply_part002 result of
                       Inl e \<Rightarrow> s1
                     | Inr (transcription, tutorResponse) \<Rightarrow>
                         playResponse_part002 tutorService tutorResponse
                           (addMessage TUTOR tutorResponse
                              (addMessage USER transcription s1))))
      in s2\<lparr>isProcessing := False\<rparr>)"

text \<open>\<^verbatim>\<open>part_003\<close>, lines 158-190: clips of fewer than 50 bytes are dropped.\<close>

definition onstop_part003 :: "Remote \<Rightarrow> string \<Rightarrow> App \<Rightarrow> App" where
  "onstop_part003 tutorService mimeType s =
     (let audioBlob = new_Blob (audioChunks s) mimeType in
      if blob_size audioBlob < 50 then s\<lparr>isProcessing := False\<rparr>
      else
        let s1 = call (ProcessAudio audioBlob)
                   (s\<lparr>isProcessing := True, processingStatus := ''AI is listening...''\<rparr>);
            s2 = (case processAudio tutorService audioBlob of
                    Inl err \<Rightarrow> handleError err s1
                  | Inr result \<Rightarrow>
                      (case parseReply_part003 result of
                         Inl e \<Rightarrow> handleError (Internal e) s1
                       | Inr (tr, resp) \<Rightarrow>
                           playResponse tutorService resp
                             (addMessage TUTOR resp (addMessage USER tr s1))))
        in s2\<lparr>isProcessing := False\<rparr>)"

text \<open>The state after the component is mounted with an empty \<^verbatim>\<open>localStorage\<close>.\<close>

definition initial_App :: App where
  "initial_App =
     \<lparr>currentUser = None, isRegistering = False, authError = [], username = [],
      password = [], level = B1, targetLanguage = English, messages = [], inputText = [],
      isProcessing = False, processingStatus = [], isPlaying = False, audioChunks = [],
      tutor_user = None, tutor_users_db = None, requests = []\<rparr>"

text \<open>A remote service that answers every text and audio request with \<open>reply\<close>.\<close>

definition answering :: "string \<Rightarrow> Remote" where
  "answering reply =
     \<lparr>sendMessage = (\<lambda>t. Inr reply), processAudio = (\<lambda>b. Inr reply),
      getSpeech = (\<lambda>t. Inr []), decodeAudioData = (\<lambda>a. True)\<rparr>"

text \<open>A remote service whose every request is rejected with \<open>err\<close>.\<close>

definition failing :: "thrown \<Rightarrow> Remote" where
  "failing err =
     \<lparr>sendMessage = (\<lambda>t. Inl err), processAudio = (\<lambda>b. Inl err),
      getSpeech = (\<lambda>t. Inl err), decodeAudioData = (\<lambda>a. False)\<rparr>"

section \<open>The specification's reading of the parser\<close>

text \<open>
  The parser as the specification words it, for comparison with the parsers above:
  cut at the first marker; the transcription is everything before it, without a
  leading \<^verbatim>\<open>[TRANSCRIPTION]\<close> tag, trimmed; the response is everything after it,
  trimmed.
\<close>

definition strip_leading_tag :: "string \<Rightarrow> string" where
  "strip_leading_tag s =
     (if startsWith s TRANSCRIPTION then drop (length TRANSCRIPTION) s else s)"

definition spec_parse :: "string \<Rightarrow> string \<times> string" where
  "spec_parse result =
     (trim (strip_leading_tag (before_first result RESPONSE)),
      trim (after_first result RESPONSE))"

section \<open>Facts about the string primitives\<close>

lemma startsWith_length: "startsWith s m \<Longrightarrow> length m \<le> length s"
proof -
  assume "startsWith s m"
  then have "length (take (length m) s) = length m" by (simp only: startsWith_def)
  then show ?thesis by simp
qed

lemma startsWith_Nil: "startsWith [] m = (m = [])"
  by (auto simp: startsWith_def)

lemma startsWith_append: "startsWith a m \<Longrightarrow> startsWith (a @ b) m"
proof -
  assume h: "startsWith a m"
  then have "length m \<le> length a" by (rule startsWith_length)
  with h show ?thesis by (simp add: startsWith_def)
qed

lemma startsWith_self_append: "startsWith (m @ b) m"
  by (simp add: startsWith_def)

lemma startsWith_includes: "startsWith s m \<Longrightarrow> includes_str s m"
  by (cases s) (simp_all add: startsWith_Nil)

lemma includes_append: "includes_str a m \<Longrightarrow> includes_str (a @ b) m"
proof (induction a)
  case Nil
  then have "m = []" by simp
  then show ?case by (cases b) (simp_all add: startsWith_def)
next
  case (Cons c a)
  show ?case
  proof (cases "startsWith (c # a) m")
    case True
    then have "startsWith ((c # a) @ b) m" by (rule startsWith_append)
    then show ?thesis by simp
  next
    case False
    with Cons show ?thesis by simp
  qed
qed

lemma includes_middle: "includes_str (a @ m @ b) m"
proof (induction a)
  case Nil
  show ?case by (simp add: startsWith_includes startsWith_self_append)
next
  case (Cons c a)
  then show ?case by simp
qed

text \<open>
  \<open>before_first\<close> and \<open>after_first\<close> cut the string at an occurrence of the marker,
  and no occurrence starts earlier.
\<close>

lemma decompose_first:
  "includes_str s m \<Longrightarrow> s = before_first s m @ m @ after_first s m"
proof (induction s)
  case Nil
  then show ?case by simp
next
  case (Cons c cs)
  show ?case
  proof (cases "startsWith (c # cs) m")
    case True
    then have "take (length m) (c # cs) = m" by (simp add: startsWith_def)
    then have "m @ drop (length m) (c # cs) = c # cs"
      by (metis append_take_drop_id)
    with True show ?thesis by simp
  next
    case False
    with Cons show ?thesis by simp
  qed
qed

lemma before_first_is_first:
  "i < length (before_first s m) \<Longrightarrow> \<not> startsWith (drop i s) m"
proof (induction s arbitrary: i)
  case Nil
  then show ?case by simp
next
  case (Cons c cs)
  show ?case
  proof (cases "startsWith (c # cs) m")
    case True
    with Cons.prems show ?thesis by simp
  next
    case False
    show ?thesis
    proof (cases i)
      case 0
      with False show ?thesis by simp
    next
      case (Suc j)
      with Cons False show ?thesis by simp
    qed
  qed
qed

lemma before_first_no_occurrence: "\<not> includes_str s m \<Longrightarrow> before_first s m = s"
  by (induction s) (auto split: if_splits)

lemma replace_no_occurrence: "\<not> includes_str s m \<Longrightarrow> replace_str s m r = s"
  by (induction s) (auto split: if_splits)

lemma split_from_first:
  "sep \<noteq> [] \<Longrightarrow>
   split_from sep cur s =
     (if includes_str s sep
      then (cur @ before_first s sep) # split_from sep [] (after_first s sep)
      else [cur @ s])"
proof (induction s arbitrary: cur)
  case Nil
  then show ?case by (subst split_from.simps) (simp add: startsWith_Nil)
next
  case (Cons c cs)
  show ?case
  proof (cases "startsWith (c # cs) sep")
    case True
    with Cons.prems show ?thesis by (subst split_from.simps) simp
  next
    case False
    with Cons.prems have "split_from sep cur (c # cs) = split_from sep (cur @ [c]) cs"
      by (subst split_from.simps) simp
    with False Cons show ?thesis by simp
  qed
qed

lemma RESPONSE_nonempty: "RESPONSE \<noteq> []"
  by (simp add: RESPONSE_def)

lemma split_no_marker:
  "\<not> includes_str s RESPONSE \<Longrightarrow> split_str s RESPONSE = [s]"
  by (simp add: split_str_def RESPONSE_nonempty split_from_first)

lemma split_marker:
  assumes "includes_str s RESPONSE"
  shows "\<exists>rest. split_str s RESPONSE =
           before_first s RESPONSE # before_first (after_first s RESPONSE) RESPONSE # rest"
proof -
  let ?a = "after_first s RESPONSE"
  have 1: "split_str s RESPONSE = before_first s RESPONSE # split_from RESPONSE [] ?a"
    using assms by (simp add: split_str_def RESPONSE_nonempty split_from_first [of RESPONSE "[]" s])
  have 2: "\<exists>rest. split_from RESPONSE [] ?a = before_first ?a RESPONSE # rest"
  proof (cases "includes_str ?a RESPONSE")
    case True
    then show ?thesis
      by (simp add: RESPONSE_nonempty split_from_first [of RESPONSE "[]" ?a])
  next
    case False
    then show ?thesis
      by (simp add: RESPONSE_nonempty split_from_first [of RESPONSE "[]" ?a]
            before_first_no_occurrence)
  qed
  from 1 2 show ?thesis by auto
qed

lemma index_marker:
  assumes "includes_str s RESPONSE"
  shows "index (split_str s RESPONSE) 0 = Some (before_first s RESPONSE)"
    and "index (split_str s RESPONSE) (Suc 0) =
           Some (before_first (after_first s RESPONSE) RESPONSE)"
  using split_marker [OF assms] by (auto simp: index_def)

lemma index_no_marker:
  assumes "\<not> includes_str s RESPONSE"
  shows "index (split_str s RESPONSE) 0 = Some s"
    and "index (split_str s RESPONSE) (Suc 0) = None"
  using split_no_marker [OF assms] by (simp_all add: index_def)

lemma replace_tag_absent:
  assumes "\<not> includes_str s TRANSCRIPTION"
  shows "replace_str (before_first s RESPONSE) TRANSCRIPTION [] = before_first s RESPONSE"
proof (cases "includes_str s RESPONSE")
  case True
  have "\<not> includes_str (before_first s RESPONSE) TRANSCRIPTION"
  proof
    assume "includes_str (before_first s RESPONSE) TRANSCRIPTION"
    then have "includes_str (before_first s RESPONSE @ RESPONSE @ after_first s RESPONSE) TRANSCRIPTION"
      by (rule includes_append)
    with decompose_first [OF True] assms show False by simp
  qed
  then show ?thesis by (rule replace_no_occurrence)
next
  case False
  with assms show ?thesis by (simp add: before_first_no_occurrence replace_no_occurrence)
qed

lemma parseReply_marker:
  assumes "includes_str result RESPONSE"
  shows "parseReply result =
           Inr (trim (replace_str (before_first result RESPONSE) TRANSCRIPTION []),
                trim (before_first (after_first result RESPONSE) RESPONSE))"
proof (cases "includes_str result TRANSCRIPTION")
  case True
  with assms show ?thesis
    by (simp add: parseReply_def index_marker trim_of_def)
next
  case False
  with assms show ?thesis
    by (simp add: parseReply_def index_marker trim_of_def replace_tag_absent)
qed

lemma parseReply_2_marker:
  assumes "includes_str result RESPONSE"
  shows "parseReply_2 result =
           Inr (trim (replace_str (before_first result RESPONSE) TRANSCRIPTION []),
                trim (before_first (after_first result RESPONSE) RESPONSE))"
  using assms by (simp add: parseReply_2_def index_marker trim_of_def)

lemma parseReply_part003_marker:
  assumes "includes_str result RESPONSE"
  shows "parseReply_part003 result =
           Inr (trim (replace_str (before_first result RESPONSE) TRANSCRIPTION []),
                trim (before_first (after_first result RESPONSE) RESPONSE))"
  using assms by (simp add: parseReply_part003_def index_marker trim_of_def)

lemma parseReply_part002_marker:
  assumes "includes_str result RESPONSE"
  shows "parseReply_part002 result =
           Inr (or_else (trim (before_first result RESPONSE)) ''Unintelligible audio'',
                or_else (trim (before_first (after_first result RESPONSE) RESPONSE))
                  ''I couldn't generate a response.'')"
  using assms by (simp add: parseReply_part002_def index_marker opt_trim_or_def)

lemma parseReply_part002_no_marker:
  assumes "\<not> includes_str result RESPONSE"
  shows "parseReply_part002 result =
           Inr (or_else (trim result) ''Unintelligible audio'', ''I couldn't generate a response.'')"
  using assms by (simp add: parseReply_part002_def index_no_marker opt_trim_or_def)

section \<open>Reply parser\<close>

text \<open>
  Claim C1, as amended. For every raw reply that contains \<^verbatim>\<open>[RESPONSE]\<close> the reply is
  split at the occurrences of the marker. The transcription is the text before the
  first occurrence, with the first \<^verbatim>\<open>[TRANSCRIPTION]\<close> in it removed, trimmed; the
  response is the text between the first occurrence and the next one (or the end of
  the reply when there is no other), trimmed. This holds for both parsers of
  \<^verbatim>\<open>src/App.tsx\<close>; the parser of \<^verbatim>\<open>part_002\<close> keeps the tag and puts a fixed
  placeholder in place of an empty piece.
\<close>

theorem C1_split_at_marker:
  assumes "includes_str result RESPONSE"
  shows "parseReply result =
           Inr (trim (replace_str (before_first result RESPONSE) TRANSCRIPTION []),
                trim (before_first (after_first result RESPONSE) RESPONSE))
         \<and> parseReply_2 result =
           Inr (trim (replace_str (before_first result RESPONSE) TRANSCRIPTION []),
                trim (before_first (after_first result RESPONSE) RESPONSE))
         \<and> parseReply_part002 result =
           Inr (or_else (trim (before_first result RESPONSE)) ''Unintelligible audio'',
                or_else (trim (before_first (after_first result RESPONSE) RESPONSE))
                  ''I couldn't generate a response.'')"
  using assms
  by (simp only: parseReply_marker parseReply_2_marker parseReply_part002_marker)

theorem C1_split_at_marker_witness:
  "includes_str ''[TRANSCRIPTION] one [RESPONSE] two [RESPONSE] three'' RESPONSE
   \<and> parseReply ''[TRANSCRIPTION] one [RESPONSE] two [RESPONSE] three'' = Inr (''one'', ''two'')
   \<and> parseReply_2 ''[TRANSCRIPTION] one [RESPONSE] two [RESPONSE] three'' = Inr (''one'', ''two'')
   \<and> parseReply_part002 ''[TRANSCRIPTION] one [RESPONSE] two [RESPONSE] three''
       = Inr (''[TRANSCRIPTION] one'', ''two'')"
proof -
  let ?r = "''[TRANSCRIPTION] one [RESPONSE] two [RESPONSE] three''"
  have h: "includes_str ?r RESPONSE" by code_simp
  have a: "trim (replace_str (before_first ?r RESPONSE) TRANSCRIPTION []) = ''one''"
    by code_simp
  have b: "trim (before_first (after_first ?r RESPONSE) RESPONSE) = ''two''"
    by code_simp
  have c: "or_else (trim (before_first ?r RESPONSE)) ''Unintelligible audio''
             = ''[TRANSCRIPTION] one''"
    by code_simp
  have d: "or_else ''two'' ''I couldn't generate a response.'' = ''two''"
    by code_simp
  from C1_split_at_marker [OF h] h show ?thesis
    by (simp only: a b c d simp_thms)
qed

theorem C1_counterexample:
  "includes_str ''a[RESPONSE]b[RESPONSE]c'' RESPONSE
   \<and> parseReply ''a[RESPONSE]b[RESPONSE]c'' = Inr (''a'', ''b'')
   \<and> spec_parse ''a[RESPONSE]b[RESPONSE]c'' = (''a'', ''b[RESPONSE]c'')
   \<and> includes_str ''x [TRANSCRIPTION] y[RESPONSE]z'' RESPONSE
   \<and> parseReply ''x [TRANSCRIPTION] y[RESPONSE]z'' = Inr (''x  y'', ''z'')
   \<and> spec_parse ''x [TRANSCRIPTION] y[RESPONSE]z'' = (''x [TRANSCRIPTION] y'', ''z'')
   \<and> includes_str ''[TRANSCRIPTION] hello [RESPONSE] hi there'' RESPONSE
   \<and> parseReply_part002 ''[TRANSCRIPTION] hello [RESPONSE] hi there''
       = Inr (''[TRANSCRIPTION] hello'', ''hi there'')
   \<and> spec_parse ''[TRANSCRIPTION] hello [RESPONSE] hi there'' = (''hello'', ''hi there'')"
  by code_simp

text \<open>
  Claim C2. The reply \<^verbatim>\<open>[TRANSCRIPTION] hello [RESPONSE] hi there\<close> is parsed into the
  transcription \<^verbatim>\<open>hello\<close> and the response \<^verbatim>\<open>hi there\<close>, by the parsers of
  \<^verbatim>\<open>src/App.tsx\<close> and of \<^verbatim>\<open>part_003\<close>.
\<close>

theorem C2_round_trip:
  "parseReply ''[TRANSCRIPTION] hello [RESPONSE] hi there'' = Inr (''hello'', ''hi there'')
   \<and> parseReply_2 ''[TRANSCRIPTION] hello [RESPONSE] hi there'' = Inr (''hello'', ''hi there'')
   \<and> parseReply_part003 ''[TRANSCRIPTION] hello [RESPONSE] hi there''
       = Inr (''hello'', ''hi there'')"
  by code_simp

text \<open>
  Claim C3, as amended. For a raw reply without \<^verbatim>\<open>[RESPONSE]\<close>, the parser of
  \<^verbatim>\<open>src/App.tsx\<close> (first listing) returns the whole reply as the response and the
  fixed string \<^verbatim>\<open>Audio processed\<close> as the transcription. The parser of \<^verbatim>\<open>part_002\<close>
  does the opposite: the trimmed reply is the transcription (\<^verbatim>\<open>Unintelligible audio\<close>
  when that is empty) and the response is the fixed string
  \<^verbatim>\<open>I couldn't generate a response.\<close>
\<close>

theorem C3_no_marker:
  assumes "\<not> includes_str result RESPONSE"
  shows "parseReply result = Inr (''Audio processed'', result)
         \<and> parseReply_part002 result =
             Inr (or_else (trim result) ''Unintelligible audio'',
                  ''I couldn't generate a response.'')"
  using assms by (simp add: parseReply_def parseReply_part002_no_marker)

theorem C3_no_marker_witness:
  "\<not> includes_str ''no markers here'' RESPONSE
   \<and> parseReply ''no markers here'' = Inr (''Audio processed'', ''no markers here'')
   \<and> parseReply_part002 ''no markers here''
       = Inr (''no markers here'', ''I couldn't generate a response.'')"
proof -
  have h: "\<not> includes_str ''no markers here'' RESPONSE" by code_simp
  have a: "or_else (trim ''no markers here'') ''Unintelligible audio'' = ''no markers here''"
    by code_simp
  from C3_no_marker [OF h] h show ?thesis
    by (simp only: a simp_thms)
qed

theorem C3_counterexample:
  "\<not> includes_str ''just a reply, no markers'' RESPONSE
   \<and> parseReply_part002 ''just a reply, no markers''
       = Inr (''just a reply, no markers'', ''I couldn't generate a response.'')"
  by code_simp

text \<open>
  Claim C5. Every parser returns a pair of a transcription and a response for every
  input string, and \<^verbatim>\<open>cleanResponse\<close> returns a string: none of them throws.
\<close>

theorem C5_parsers_total:
  "(\<exists>t r. parseReply result = Inr (t, r))
   \<and> (\<exists>t r. parseReply_2 result = Inr (t, r))
   \<and> (\<exists>t r. parseReply_part002 result = Inr (t, r))
   \<and> (\<exists>t r. parseReply_part003 result = Inr (t, r))
   \<and> (\<exists>r. cleanResponse result = Inr r)"
proof (cases "includes_str result RESPONSE")
  case True
  then show ?thesis
    by (simp add: parseReply_marker parseReply_2_marker parseReply_part002_marker
          parseReply_part003_marker cleanResponse_def index_marker trim_of_def)
next
  case False
  then show ?thesis
    by (simp add: parseReply_def parseReply_2_def parseReply_part002_no_marker
          parseReply_part003_def cleanResponse_def)
qed

theorem C5_parsers_total_witness:
  "(\<exists>t r. parseReply [] = Inr (t, r))
   \<and> (\<exists>t r. parseReply_2 ''[RESPONSE]'' = Inr (t, r))
   \<and> (\<exists>t r. parseReply_part002 ''[RESPONSE][RESPONSE]'' = Inr (t, r))
   \<and> (\<exists>t r. parseReply_part003 ''[TRANSCRIPTION'' = Inr (t, r))
   \<and> (\<exists>r. cleanResponse ''[RESPONSE'' = Inr r)"
  using C5_parsers_total [of "[]"] C5_parsers_total [of "''[RESPONSE]''"]
    C5_parsers_total [of "''[RESPONSE][RESPONSE]''"] C5_parsers_total [of "''[TRANSCRIPTION''"]
    C5_parsers_total [of "''[RESPONSE''"]
  by blast

section \<open>Handlers\<close>

lemma messages_call: "messages (call r s) = messages s"
  by (simp add: call_def)

lemma messages_addMessage:
  "messages (addMessage r t s) = messages s @ [\<lparr>msg_role = r, msg_text = t\<rparr>]"
  by (simp add: addMessage_def)

lemma messages_playResponse: "messages (playResponse tutorService t s) = messages s"
  by (simp add: playResponse_def call_def Let_def split: sum.splits)

lemma messages_playResponse_part002:
  "messages (playResponse_part002 tutorService t s) = messages s"
  by (simp add: playResponse_part002_def call_def Let_def split: sum.splits)

text \<open>
  Claim C4, as amended. When the reply contains \<^verbatim>\<open>[RESPONSE]\<close> and the transcription
  segment before it is empty after trimming, the handler displays a fixed placeholder
  as the user's message (\<^verbatim>\<open>I heard something but couldn't transcribe it.\<close> in
  \<^verbatim>\<open>src/App.tsx\<close>, \<^verbatim>\<open>Unintelligible audio\<close> in \<^verbatim>\<open>part_002\<close>), followed by the
  tutor's message: the trimmed text between the marker and the next marker or the end
  of the reply, which \<^verbatim>\<open>part_002\<close> replaces by \<^verbatim>\<open>I couldn't generate a response.\<close>
  when it is empty.
\<close>

theorem C4_empty_transcription:
  assumes "includes_str result RESPONSE"
  shows "(processAudio tutorService (new_Blob (audioChunks s) (or_else mimeType ''audio/wav''))
            = Inr result
          \<and> trim (replace_str (before_first result RESPONSE) TRANSCRIPTION []) = []
          \<longrightarrow> messages (onstop tutorService mimeType s) =
                messages s @
                  [\<lparr>msg_role = USER,
                    msg_text = ''I heard something but couldn't transcribe it.''\<rparr>,
                   \<lparr>msg_role = TUTOR,
                    msg_text = trim (before_first (after_first result RESPONSE) RESPONSE)\<rparr>])
         \<and> (processAudio tutorService (new_Blob (audioChunks s) ''audio/webm'') = Inr result
            \<and> trim (before_first result RESPONSE) = []
            \<longrightarrow> messages (onstop_part002 tutorService s) =
                  messages s @
                    [\<lparr>msg_role = USER, msg_text = ''Unintelligible audio''\<rparr>,
                     \<lparr>msg_role = TUTOR,
                      msg_text =
                        or_else (trim (before_first (after_first result RESPONSE) RESPONSE))
                          ''I couldn't generate a response.''\<rparr>])"
proof (intro conjI impI)
  assume h: "processAudio tutorService
               (new_Blob (audioChunks s) (or_else mimeType ''audio/wav'')) = Inr result
             \<and> trim (replace_str (before_first result RESPONSE) TRANSCRIPTION []) = []"
  with assms show "messages (onstop tutorService mimeType s) =
      messages s @
        [\<lparr>msg_role = USER, msg_text = ''I heard something but couldn't transcribe it.''\<rparr>,
         \<lparr>msg_role = TUTOR,
          msg_text = trim (before_first (after_first result RESPONSE) RESPONSE)\<rparr>]"
    by (simp add: onstop_def Let_def parseReply_marker messages_playResponse
          messages_addMessage messages_call or_else_def)
next
  assume h: "processAudio tutorService (new_Blob (audioChunks s) ''audio/webm'') = Inr result
             \<and> trim (before_first result RESPONSE) = []"
  with assms show "messages (onstop_part002 tutorService s) =
      messages s @
        [\<lparr>msg_role = USER, msg_text = ''Unintelligible audio''\<rparr>,
         \<lparr>msg_role = TUTOR,
          msg_text = or_else (trim (before_first (after_first result RESPONSE) RESPONSE))
                       ''I couldn't generate a response.''\<rparr>]"
    by (simp add: onstop_part002_def Let_def parseReply_part002_marker
          messages_playResponse_part002 messages_addMessage messages_call or_else_def)
qed

lemma processAudio_answering: "processAudio (answering reply) b = Inr reply"
  by (simp add: answering_def)

lemma messages_initial_App: "messages initial_App = []"
  by (simp add: initial_App_def)

theorem C4_empty_transcription_witness:
  "messages (onstop (answering ''[RESPONSE] only this'') ''audio/webm'' initial_App) =
     [\<lparr>msg_role = USER, msg_text = ''I heard something but couldn't transcribe it.''\<rparr>,
      \<lparr>msg_role = TUTOR, msg_text = ''only this''\<rparr>]
   \<and> messages (onstop_part002 (answering ''[RESPONSE] only this'') initial_App) =
     [\<lparr>msg_role = USER, msg_text = ''Unintelligible audio''\<rparr>,
      \<lparr>msg_role = TUTOR, msg_text = ''only this''\<rparr>]"
proof -
  let ?r = "''[RESPONSE] only this''"
  have h: "includes_str ?r RESPONSE" by code_simp
  have a: "trim (replace_str (before_first ?r RESPONSE) TRANSCRIPTION []) = []" by code_simp
  have b: "trim (before_first ?r RESPONSE) = []" by code_simp
  have c: "trim (before_first (after_first ?r RESPONSE) RESPONSE) = ''only this''" by code_simp
  have d: "or_else ''only this'' ''I couldn't generate a response.'' = ''only this''"
    by code_simp
  from C4_empty_transcription [OF h, of "answering ?r" initial_App "''audio/webm''"]
  show ?thesis
    by (simp only: a b c d processAudio_answering messages_initial_App append_Nil simp_thms)
qed

theorem C4_counterexample:
  "includes_str ''[RESPONSE] a[RESPONSE] b'' RESPONSE
   \<and> trim (before_first ''[RESPONSE] a[RESPONSE] b'' RESPONSE) = []
   \<and> messages (onstop (answering ''[RESPONSE] a[RESPONSE] b'') ''audio/webm'' initial_App) =
       [\<lparr>msg_role = USER, msg_text = ''I heard something but couldn't transcribe it.''\<rparr>,
        \<lparr>msg_role = TUTOR, msg_text = ''a''\<rparr>]
   \<and> trim (after_first ''[RESPONSE] a[RESPONSE] b'' RESPONSE) = ''a[RESPONSE] b''
   \<and> includes_str ''[RESPONSE]'' RESPONSE
   \<and> trim (before_first ''[RESPONSE]'' RESPONSE) = []
   \<and> messages (onstop_part002 (answering ''[RESPONSE]'') initial_App) =
       [\<lparr>msg_role = USER, msg_text = ''Unintelligible audio''\<rparr>,
        \<lparr>msg_role = TUTOR, msg_text = ''I couldn't generate a response.''\<rparr>]
   \<and> trim (after_first ''[RESPONSE]'' RESPONSE) = []"
  by code_simp

text \<open>
  Claim C8. When a text is sent (the input is not blank and no request is in flight)
  and \<^verbatim>\<open>sendMessage\<close> rejects, the handler appends the user's message and exactly one
  tutor message, the error notice, and leaves \<^verbatim>\<open>isProcessing\<close> false. This holds for
  \<^verbatim>\<open>handleSendText\<close> of \<^verbatim>\<open>src/App.tsx\<close> and of \<^verbatim>\<open>part_003\<close>.
\<close>

theorem C8_send_failure:
  assumes "trim (inputText s) \<noteq> []"
    and "\<not> isProcessing s"
    and "sendMessage tutorService (inputText s) = Inl err"
  shows "messages (handleSendText tutorService s) =
           messages s @
             [\<lparr>msg_role = USER, msg_text = inputText s\<rparr>,
              \<lparr>msg_role = TUTOR,
               msg_text = ''Sorry, I'm having trouble connecting to my brain.''\<rparr>]
         \<and> length (filter (\<lambda>m. msg_role m = TUTOR) (messages (handleSendText tutorService s)))
             = length (filter (\<lambda>m. msg_role m = TUTOR) (messages s)) + 1
         \<and> isProcessing (handleSendText tutorService s) = False
         \<and> messages (handleSendText_part003 tutorService s) =
           messages s @
             [\<lparr>msg_role = USER, msg_text = inputText s\<rparr>,
              \<lparr>msg_role = TUTOR,
               msg_text =
                 ''I encountered an error: ''
                 @ (case err_message err of
                      None \<Rightarrow> err_string err
                    | Some m \<Rightarrow> or_else m (err_string err))
                 @ ''. Please ensure you have a valid internet connection.''\<rparr>]
         \<and> length (filter (\<lambda>m. msg_role m = TUTOR)
                     (messages (handleSendText_part003 tutorService s)))
             = length (filter (\<lambda>m. msg_role m = TUTOR) (messages s)) + 1
         \<and> isProcessing (handleSendText_part003 tutorService s) = False"
  using assms
  by (simp add: handleSendText_def handleSendText_part003_def handleError_def Let_def
        messages_addMessage messages_call addMessage_def call_def)

lemma sendMessage_failing: "sendMessage (failing err) t = Inl err"
  by (simp add: failing_def)

theorem C8_send_failure_witness:
  "messages (handleSendText (failing (Rejected (Some ''offline'') ''Error: offline''))
              (initial_App\<lparr>inputText := ''hello''\<rparr>)) =
     [\<lparr>msg_role = USER, msg_text = ''hello''\<rparr>,
      \<lparr>msg_role = TUTOR, msg_text = ''Sorry, I'm having trouble connecting to my brain.''\<rparr>]
   \<and> isProcessing (handleSendText (failing (Rejected (Some ''offline'') ''Error: offline''))
                     (initial_App\<lparr>inputText := ''hello''\<rparr>)) = False
   \<and> messages (handleSendText_part003 (failing (Rejected (Some ''offline'') ''Error: offline''))
                 (initial_App\<lparr>inputText := ''hello''\<rparr>)) =
     [\<lparr>msg_role = USER, msg_text = ''hello''\<rparr>,
      \<lparr>msg_role = TUTOR,
       msg_text = ''I encountered an error: offline. Please ensure you have a valid internet connection.''\<rparr>]
   \<and> isProcessing (handleSendText_part003 (failing (Rejected (Some ''offline'') ''Error: offline''))
                     (initial_App\<lparr>inputText := ''hello''\<rparr>)) = False"
proof -
  let ?s = "initial_App\<lparr>inputText := ''hello''\<rparr>"
  let ?e = "Rejected (Some ''offline'') ''Error: offline''"
  have i: "inputText ?s = ''hello''" by simp
  have 1: "trim (inputText ?s) \<noteq> []" unfolding i by code_simp
  have 2: "\<not> isProcessing ?s" by (simp add: initial_App_def)
  have 3: "sendMessage (failing ?e) (inputText ?s) = Inl ?e" by (rule sendMessage_failing)
  have m: "messages ?s = []" by (simp add: initial_App_def)
  from C8_send_failure [OF 1 2 3] show ?thesis
    by (simp add: m or_else_def)
qed

text \<open>
  Claim C9, as amended. The handler of \<^verbatim>\<open>part_003\<close> drops a clip of fewer than 50
  bytes: no request is sent, no message is added, and \<^verbatim>\<open>isProcessing\<close> is set to
  false. The handler of \<^verbatim>\<open>src/App.tsx\<close> (first listing) has no size test and submits
  every clip to \<^verbatim>\<open>processAudio\<close>.
\<close>

theorem C9_small_clip:
  assumes "blob_size (new_Blob (audioChunks s) mimeType) < 50"
  shows "onstop_part003 tutorService mimeType s = s\<lparr>isProcessing := False\<rparr>
         \<and> requests (onstop_part003 tutorService mimeType s) = requests s
         \<and> messages (onstop_part003 tutorService mimeType s) = messages s
         \<and> ProcessAudio (new_Blob (audioChunks s) (or_else mimeType ''audio/wav''))
             \<in> set (requests (onstop tutorService mimeType s))"
proof -
  have a: "onstop_part003 tutorService mimeType s = s\<lparr>isProcessing := False\<rparr>"
    using assms by (simp add: onstop_part003_def Let_def)
  have b: "ProcessAudio (new_Blob (audioChunks s) (or_else mimeType ''audio/wav''))
             \<in> set (requests (onstop tutorService mimeType s))"
    by (simp add: onstop_def Let_def playResponse_def call_def addMessage_def
          split: sum.splits prod.splits)
  from a b show ?thesis by simp
qed

theorem C9_small_clip_witness:
  "blob_size (new_Blob [\<lparr>blob_size = 10, blob_type = ''audio/webm''\<rparr>] ''audio/webm'') < 50
   \<and> requests (onstop_part003 (answering ''hello'') ''audio/webm''
                 (initial_App\<lparr>audioChunks := [\<lparr>blob_size = 10, blob_type = ''audio/webm''\<rparr>]\<rparr>))
       = []
   \<and> messages (onstop_part003 (answering ''hello'') ''audio/webm''
                 (initial_App\<lparr>audioChunks := [\<lparr>blob_size = 10, blob_type = ''audio/webm''\<rparr>]\<rparr>))
       = []"
proof -
  let ?s = "initial_App\<lparr>audioChunks := [\<lparr>blob_size = 10, blob_type = ''audio/webm''\<rparr>]\<rparr>"
  have h: "blob_size (new_Blob (audioChunks ?s) ''audio/webm'') < 50"
    by (simp add: new_Blob_def)
  from C9_small_clip [OF h, of "answering ''hello''"] h show ?thesis
    by (simp add: initial_App_def)
qed

theorem C9_counterexample:
  "blob_size (new_Blob [\<lparr>blob_size = 10, blob_type = ''audio/webm''\<rparr>] ''audio/webm'') < 50
   \<and> requests (onstop (answering ''hello'') ''audio/webm''
                 (initial_App\<lparr>audioChunks := [\<lparr>blob_size = 10, blob_type = ''audio/webm''\<rparr>]\<rparr>))
       = [ProcessAudio \<lparr>blob_size = 10, blob_type = ''audio/webm''\<rparr>, GetSpeech ''hello'']
   \<and> messages (onstop (answering ''hello'') ''audio/webm''
                 (initial_App\<lparr>audioChunks := [\<lparr>blob_size = 10, blob_type = ''audio/webm''\<rparr>]\<rparr>))
       = [\<lparr>msg_role = USER, msg_text = ''Audio processed''\<rparr>,
          \<lparr>msg_role = TUTOR, msg_text = ''hello''\<rparr>]"
  by code_simp

section \<open>Session Configurator\<close>

lemma includes_sixth: "includes_str (a @ b @ c @ d @ e @ m @ r) m"
  using includes_middle [of "a @ b @ c @ d @ e" m r] by (simp only: append_assoc)

lemma instructions_contains_level:
  "includes_str (instructions this) (levelDescriptions (this_currentLevel this))"
  unfolding instructions_def by (rule includes_sixth)

lemma instructions_contains_lang:
  "includes_str (instructions this) (tutorLang (this_targetLanguage this))"
  unfolding instructions_def by (rule includes_middle)

lemma instructions_nonempty: "instructions this \<noteq> []"
  by (simp add: instructions_def)

lemma getSystemInstruction_contains_level:
  "includes_str (getSystemInstruction this) (levelDescriptions_part000 (this_currentLevel this))"
  unfolding getSystemInstruction_def by (rule includes_sixth)

lemma getSystemInstruction_contains_lang:
  "includes_str (getSystemInstruction this) (tutorLang (this_targetLanguage this))"
  unfolding getSystemInstruction_def by (rule includes_middle)

lemma getSystemInstruction_nonempty: "getSystemInstruction this \<noteq> []"
  by (simp add: getSystemInstruction_def)

lemma tutorLang_goal: "tutorLang (goal_str g) = goal_str g"
  by (cases g) (simp_all add: tutorLang_def)

text \<open>
  Claim C6. For each of the six levels, whatever the mode and the scenario,
  \<^verbatim>\<open>startSession\<close> yields a non-empty instruction that contains the level's description
  from the six-entry table and the tutoring-language label. The label is \<^verbatim>\<open>English\<close>
  for the target language \<^verbatim>\<open>English\<close> and \<^verbatim>\<open>Russian\<close> for any other value, so for the
  two target languages it is the language's own name. This holds for
  \<^verbatim>\<open>src/services/geminiService.ts\<close> and for \<^verbatim>\<open>part_000\<close>.
\<close>

theorem C6_instruction:
  "(\<exists>instr. this_chat (startSession this lvl lang md scenario) = Some instr
       \<and> instr \<noteq> []
       \<and> includes_str instr (levelDescriptions lvl)
       \<and> includes_str instr (tutorLang lang))
   \<and> getSystemInstruction (startSession_part000 this lvl lang md scenario) \<noteq> []
   \<and> includes_str (getSystemInstruction (startSession_part000 this lvl lang md scenario))
       (levelDescriptions_part000 lvl)
   \<and> includes_str (getSystemInstruction (startSession_part000 this lvl lang md scenario))
       (tutorLang lang)
   \<and> tutorLang lang = (if lang = ''English'' then ''English'' else ''Russian'')
   \<and> tutorLang (goal_str g) = goal_str g"
proof -
  let ?t = "this\<lparr>this_currentLevel := lvl, this_targetLanguage := lang,
                   this_currentMode := md, this_customScenario := scenario\<rparr>"
  have c: "this_chat (startSession this lvl lang md scenario) = Some (instructions ?t)"
    by (simp add: startSession_def initChat_def)
  have l: "this_currentLevel ?t = lvl" and g: "this_targetLanguage ?t = lang" by simp_all
  have 1: "includes_str (instructions ?t) (levelDescriptions lvl)"
    using instructions_contains_level [of ?t] by (simp only: l)
  have 2: "includes_str (instructions ?t) (tutorLang lang)"
    using instructions_contains_lang [of ?t] by (simp only: g)
  have 3: "includes_str (getSystemInstruction ?t) (levelDescriptions_part000 lvl)"
    using getSystemInstruction_contains_level [of ?t] by (simp only: l)
  have 4: "includes_str (getSystemInstruction ?t) (tutorLang lang)"
    using getSystemInstruction_contains_lang [of ?t] by (simp only: g)
  have p: "startSession_part000 this lvl lang md scenario = ?t"
    by (simp add: startSession_part000_def)
  show ?thesis
    using c 1 2 3 4 instructions_nonempty [of ?t] getSystemInstruction_nonempty [of ?t]
      tutorLang_goal [of g]
    by (simp only: p tutorLang_def simp_thms if_True if_False) blast
qed

theorem C6_instruction_witness:
  "(\<exists>instr. this_chat (startSession
                 \<lparr>this_currentLevel = B1, this_targetLanguage = ''English'',
                  this_currentMode = MENU, this_customScenario = [], this_chat = None\<rparr>
                 A2 ''Russian'' INTERVIEW []) = Some instr
       \<and> instr \<noteq> []
       \<and> includes_str instr
           ''Elementary. Use simple language but start introducing basic past and future tenses.''
       \<and> includes_str instr ''Russian'')
   \<and> includes_str (getSystemInstruction (startSession_part000
          \<lparr>this_currentLevel = B1, this_targetLanguage = ''English'',
           this_currentMode = MENU, this_customScenario = [], this_chat = None\<rparr>
          A2 ''Russian'' INTERVIEW []))
       ''Elementary. Simple language but start introducing basic past and future tenses.''
   \<and> includes_str (getSystemInstruction (startSession_part000
          \<lparr>this_currentLevel = B1, this_targetLanguage = ''English'',
           this_currentMode = MENU, this_customScenario = [], this_chat = None\<rparr>
          A2 ''Russian'' INTERVIEW []))
       ''Russian''"
proof -
  have t: "tutorLang ''Russian'' = ''Russian''" by (simp add: tutorLang_def)
  have d: "levelDescriptions A2 =
      ''Elementary. Use simple language but start introducing basic past and future tenses.''"
    by simp
  have e: "levelDescriptions_part000 A2 =
      ''Elementary. Simple language but start introducing basic past and future tenses.''"
    by simp
  from C6_instruction [of "\<lparr>this_currentLevel = B1, this_targetLanguage = ''English'',
           this_currentMode = MENU, this_customScenario = [], this_chat = None\<rparr>"
         A2 "''Russian''" INTERVIEW "[]" Russian]
  show ?thesis
    unfolding t d e by blast
qed

section \<open>Local Identity Store\<close>

lemma get_property_own: "obj k = Some v \<Longrightarrow> get_property obj k = Own v"
  by (simp add: get_property_def)

text \<open>
  A registration writes the record exactly when both fields are filled in and the
  name is not a property that every object inherits.
\<close>

lemma registration_succeeds_iff:
  assumes "isRegistering s" and "load_users s (username s) = None"
  shows "load_users (handleAuth s) (username s) \<noteq> None
         \<longleftrightarrow> username s \<noteq> [] \<and> password s \<noteq> []
             \<and> username s \<notin> set Object_prototype_keys"
  using assms
  by (auto simp: handleAuth_def Let_def load_users_def get_property_def
        split: option.splits if_splits)

lemma registration_effect:
  assumes "isRegistering s" and "load_users s (username s) = None"
    and "load_users (handleAuth s) (username s) \<noteq> None"
  shows "tutor_users_db (handleAuth s) =
           Some ((load_users s)(username s \<mapsto>
                   \<lparr>stored_password = password s, stored_level = level s,
                    stored_targetLanguage = targetLanguage s\<rparr>))"
  using assms
  by (auto simp: handleAuth_def Let_def load_users_def get_property_def
        split: option.splits if_splits)

lemma registration_effect_part003:
  assumes "isRegistering s" and "load_users s (username s) = None"
    and "load_users (handleAuth_part003 s) (username s) \<noteq> None"
  shows "tutor_users_db (handleAuth_part003 s) =
           Some ((load_users s)(username s \<mapsto>
                   \<lparr>stored_password = password s, stored_level = level s,
                    stored_targetLanguage = targetLanguage s\<rparr>))
         \<and> username s \<noteq> [] \<and> password s \<noteq> []"
  using assms
  by (auto simp: handleAuth_part003_def Let_def load_users_def get_property_def
        split: option.splits if_splits)

lemma registration_fields:
  assumes "isRegistering s" and "load_users s (username s) = None"
    and "load_users (handleAuth s) (username s) \<noteq> None"
  shows "username s \<noteq> [] \<and> password s \<noteq> []"
  using assms registration_succeeds_iff by blast

lemma login_effect:
  assumes "\<not> isRegistering s" and "username s \<noteq> []" and "password s \<noteq> []"
    and "load_users s (username s) = Some stored"
    and "stored_password stored = password s"
  shows "handleAuth s =
           s\<lparr>authError := [],
             currentUser := Some \<lparr>user_username = username s, user_level = stored_level stored,
                                  user_targetLanguage = stored_targetLanguage stored\<rparr>,
             tutor_user := Some \<lparr>user_username = username s, user_level = stored_level stored,
                                 user_targetLanguage = stored_targetLanguage stored\<rparr>\<rparr>"
  using assms by (simp add: handleAuth_def Let_def get_property_own load_users_def)

lemma login_effect_part003:
  assumes "\<not> isRegistering s" and "username s \<noteq> []" and "password s \<noteq> []"
    and "load_users s (username s) = Some stored"
    and "stored_password stored = password s"
  shows "handleAuth_part003 s =
           s\<lparr>currentUser := Some \<lparr>user_username = username s, user_level = stored_level stored,
                                  user_targetLanguage = stored_targetLanguage stored\<rparr>,
             tutor_user := Some \<lparr>user_username = username s, user_level = stored_level stored,
                                 user_targetLanguage = stored_targetLanguage stored\<rparr>\<rparr>"
  using assms by (simp add: handleAuth_part003_def Let_def get_property_own load_users_def)

text \<open>
  Claim C7. A registration under a username that is in the users directory, and a
  login with a password other than the stored one, both fail: an error message is
  set, and the users directory, the stored current user and the current user are
  left as they were. This holds for \<^verbatim>\<open>handleAuth\<close> of \<^verbatim>\<open>src/App.tsx\<close> and of
  \<^verbatim>\<open>part_003\<close>.
\<close>

theorem C7_rejected_auth:
  assumes "load_users s (username s) = Some stored"
    and "isRegistering s \<or> stored_password stored \<noteq> password s"
  shows "tutor_users_db (handleAuth s) = tutor_users_db s
         \<and> tutor_user (handleAuth s) = tutor_user s
         \<and> currentUser (handleAuth s) = currentUser s
         \<and> authError (handleAuth s) \<noteq> []
         \<and> tutor_users_db (handleAuth_part003 s) = tutor_users_db s
         \<and> tutor_user (handleAuth_part003 s) = tutor_user s
         \<and> currentUser (handleAuth_part003 s) = currentUser s
         \<and> authError (handleAuth_part003 s) \<noteq> []"
  using assms
  by (auto simp: handleAuth_def handleAuth_part003_def Let_def get_property_own load_users_def)

text \<open>The state in which \<^verbatim>\<open>bob\<close> has just registered with the password \<^verbatim>\<open>pw\<close>.\<close>

lemma bob_registered:
  "handleAuth (initial_App\<lparr>username := ''bob'', password := ''pw'', isRegistering := True\<rparr>)
   = initial_App\<lparr>username := ''bob'', password := ''pw'', isRegistering := True,
       tutor_users_db := Some [''bob'' \<mapsto> \<lparr>stored_password = ''pw'', stored_level = B1,
                                            stored_targetLanguage = English\<rparr>],
       currentUser := Some \<lparr>user_username = ''bob'', user_level = B1,
                             user_targetLanguage = English\<rparr>,
       tutor_user := Some \<lparr>user_username = ''bob'', user_level = B1,
                            user_targetLanguage = English\<rparr>\<rparr>"
  by (simp add: handleAuth_def initial_App_def load_users_def get_property_def
        Object_prototype_keys_def Let_def)

theorem C7_rejected_auth_witness:
  "tutor_users_db
     (handleAuth (handleAuth
        (initial_App\<lparr>username := ''bob'', password := ''pw'', isRegistering := True\<rparr>)))
   = Some [''bob'' \<mapsto> \<lparr>stored_password = ''pw'', stored_level = B1,
                         stored_targetLanguage = English\<rparr>]
   \<and> authError
       (handleAuth (handleAuth
          (initial_App\<lparr>username := ''bob'', password := ''pw'', isRegistering := True\<rparr>)))
     \<noteq> []
   \<and> currentUser
       (handleAuth
          ((handleAuth
              (initial_App\<lparr>username := ''bob'', password := ''pw'', isRegistering := True\<rparr>))
           \<lparr>isRegistering := False, password := ''guess'', currentUser := None,
             tutor_user := None\<rparr>))
     = None"
proof -
  let ?s = "handleAuth
              (initial_App\<lparr>username := ''bob'', password := ''pw'', isRegistering := True\<rparr>)"
  let ?s' = "?s\<lparr>isRegistering := False, password := ''guess'', currentUser := None,
                  tutor_user := None\<rparr>"
  let ?stored = "\<lparr>stored_password = ''pw'', stored_level = B1, stored_targetLanguage = English\<rparr>"
  have 1: "load_users ?s (username ?s) = Some ?stored"
    by (simp add: bob_registered load_users_def)
  have 2: "isRegistering ?s \<or> stored_password ?stored \<noteq> password ?s"
    by (simp add: bob_registered)
  have 3: "load_users ?s' (username ?s') = Some ?stored"
    by (simp add: bob_registered load_users_def)
  have 4: "isRegistering ?s' \<or> stored_password ?stored \<noteq> password ?s'"
    by simp
  have 5: "tutor_users_db ?s = Some [''bob'' \<mapsto> ?stored]"
    by (simp add: bob_registered)
  have 6: "currentUser ?s' = None" by simp
  from C7_rejected_auth [OF 1 2] C7_rejected_auth [OF 3 4] show ?thesis
    by (simp only: 5 6 simp_thms)
qed

text \<open>
  Claim C10. If a registration under a username that was not in the users directory
  succeeds (the record is written), then a later login with the same username and
  password succeeds: the current user and the stored current user carry that
  username and the level and target language given at registration. Between the
  two, anything but the users directory and the two form fields may have changed.
  This holds for \<^verbatim>\<open>handleAuth\<close> of \<^verbatim>\<open>src/App.tsx\<close> and of \<^verbatim>\<open>part_003\<close>.
\<close>

theorem C10_register_then_login:
  assumes "isRegistering s"
    and "load_users s (username s) = None"
    and "\<not> isRegistering s'"
    and "username s' = username s"
    and "password s' = password s"
  shows "(load_users (handleAuth s) (username s) \<noteq> None
          \<and> tutor_users_db s' = tutor_users_db (handleAuth s)
          \<longrightarrow> currentUser (handleAuth s') =
                Some \<lparr>user_username = username s, user_level = level s,
                      user_targetLanguage = targetLanguage s\<rparr>
              \<and> tutor_user (handleAuth s') =
                Some \<lparr>user_username = username s, user_level = level s,
                      user_targetLanguage = targetLanguage s\<rparr>
              \<and> authError (handleAuth s') = [])
         \<and> (load_users (handleAuth_part003 s) (username s) \<noteq> None
            \<and> tutor_users_db s' = tutor_users_db (handleAuth_part003 s)
            \<longrightarrow> currentUser (handleAuth_part003 s') =
                  Some \<lparr>user_username = username s, user_level = level s,
                        user_targetLanguage = targetLanguage s\<rparr>
                \<and> tutor_user (handleAuth_part003 s') =
                  Some \<lparr>user_username = username s, user_level = level s,
                        user_targetLanguage = targetLanguage s\<rparr>
                \<and> authError (handleAuth_part003 s') = authError s')"
proof (intro conjI impI)
  let ?stored = "\<lparr>stored_password = password s, stored_level = level s,
                   stored_targetLanguage = targetLanguage s\<rparr>"
  assume h: "load_users (handleAuth s) (username s) \<noteq> None
             \<and> tutor_users_db s' = tutor_users_db (handleAuth s)"
  then have db: "tutor_users_db s' = Some ((load_users s)(username s \<mapsto> ?stored))"
    using registration_effect [OF assms(1,2)] by simp
  have f: "username s \<noteq> [] \<and> password s \<noteq> []"
    using registration_fields [OF assms(1,2)] h by simp
  have l: "load_users s' (username s') = Some ?stored"
    using db assms(4) by (simp add: load_users_def)
  have e: "handleAuth s' =
      s'\<lparr>authError := [],
         currentUser := Some \<lparr>user_username = username s', user_level = stored_level ?stored,
                               user_targetLanguage = stored_targetLanguage ?stored\<rparr>,
         tutor_user := Some \<lparr>user_username = username s', user_level = stored_level ?stored,
                              user_targetLanguage = stored_targetLanguage ?stored\<rparr>\<rparr>"
    using f assms(3,4,5) by (intro login_effect [OF _ _ _ l]) simp_all
  show "currentUser (handleAuth s') =
          Some \<lparr>user_username = username s, user_level = level s,
                user_targetLanguage = targetLanguage s\<rparr>"
    by (simp add: e assms(4))
  show "tutor_user (handleAuth s') =
          Some \<lparr>user_username = username s, user_level = level s,
                user_targetLanguage = targetLanguage s\<rparr>"
    by (simp add: e assms(4))
  show "authError (handleAuth s') = []"
    by (simp add: e)
next
  let ?stored = "\<lparr>stored_password = password s, stored_level = level s,
                   stored_targetLanguage = targetLanguage s\<rparr>"
  assume h: "load_users (handleAuth_part003 s) (username s) \<noteq> None
             \<and> tutor_users_db s' = tutor_users_db (handleAuth_part003 s)"
  then have r: "tutor_users_db (handleAuth_part003 s) =
                  Some ((load_users s)(username s \<mapsto> ?stored))
                \<and> username s \<noteq> [] \<and> password s \<noteq> []"
    using registration_effect_part003 [OF assms(1,2)] by simp
  with h have db: "tutor_users_db s' = Some ((load_users s)(username s \<mapsto> ?stored))"
    by simp
  have l: "load_users s' (username s') = Some ?stored"
    using db assms(4) by (simp add: load_users_def)
  have e: "handleAuth_part003 s' =
      s'\<lparr>currentUser := Some \<lparr>user_username = username s', user_level = stored_level ?stored,
                               user_targetLanguage = stored_targetLanguage ?stored\<rparr>,
         tutor_user := Some \<lparr>user_username = username s', user_level = stored_level ?stored,
                              user_targetLanguage = stored_targetLanguage ?stored\<rparr>\<rparr>"
    using r assms(3,4,5) by (intro login_effect_part003 [OF _ _ _ l]) simp_all
  show "currentUser (handleAuth_part003 s') =
          Some \<lparr>user_username = username s, user_level = level s,
                user_targetLanguage = targetLanguage s\<rparr>"
    by (simp add: e assms(4))
  show "tutor_user (handleAuth_part003 s') =
          Some \<lparr>user_username = username s, user_level = level s,
                user_targetLanguage = targetLanguage s\<rparr>"
    by (simp add: e assms(4))
  show "authError (handleAuth_part003 s') = authError s'"
    by (simp add: e)
qed

theorem C10_register_then_login_witness:
  "currentUser
     (handleAuth
        ((handleAuth (initial_App\<lparr>username := ''ann'', password := ''s3cret'',
                        isRegistering := True, level := C1, targetLanguage := Russian\<rparr>))
         \<lparr>isRegistering := False, currentUser := None, tutor_user := None,
           level := B1, targetLanguage := English\<rparr>))
   = Some \<lparr>user_username = ''ann'', user_level = C1, user_targetLanguage = Russian\<rparr>
   \<and> currentUser
       (handleAuth_part003
          ((handleAuth_part003 (initial_App\<lparr>username := ''ann'', password := ''s3cret'',
                          isRegistering := True, level := C1, targetLanguage := Russian\<rparr>))
           \<lparr>isRegistering := False, currentUser := None, tutor_user := None,
             level := B1, targetLanguage := English\<rparr>))
     = Some \<lparr>user_username = ''ann'', user_level = C1, user_targetLanguage = Russian\<rparr>"
proof -
  let ?s = "initial_App\<lparr>username := ''ann'', password := ''s3cret'',
              isRegistering := True, level := C1, targetLanguage := Russian\<rparr>"
  let ?a = "(handleAuth ?s)\<lparr>isRegistering := False, currentUser := None, tutor_user := None,
              level := B1, targetLanguage := English\<rparr>"
  let ?b = "(handleAuth_part003 ?s)\<lparr>isRegistering := False, currentUser := None,
              tutor_user := None, level := B1, targetLanguage := English\<rparr>"
  have 1: "isRegistering ?s" by simp
  have 2: "load_users ?s (username ?s) = None"
    by (simp add: load_users_def initial_App_def)
  have u: "username (handleAuth ?s) = ''ann'' \<and> password (handleAuth ?s) = ''s3cret''
           \<and> load_users (handleAuth ?s) ''ann'' \<noteq> None"
    by (simp add: handleAuth_def initial_App_def load_users_def get_property_def
          Object_prototype_keys_def Let_def)
  have v: "username (handleAuth_part003 ?s) = ''ann''
           \<and> password (handleAuth_part003 ?s) = ''s3cret''
           \<and> load_users (handleAuth_part003 ?s) ''ann'' \<noteq> None"
    by (simp add: handleAuth_part003_def initial_App_def load_users_def get_property_def
          Object_prototype_keys_def Let_def)
  have a3: "\<not> isRegistering ?a" and a4: "username ?a = username ?s"
    and a5: "password ?a = password ?s"
    using u by simp_all
  have b3: "\<not> isRegistering ?b" and b4: "username ?b = username ?s"
    and b5: "password ?b = password ?s"
    using v by simp_all
  have a6: "load_users (handleAuth ?s) (username ?s) \<noteq> None
            \<and> tutor_users_db ?a = tutor_users_db (handleAuth ?s)"
    using u by simp
  have b6: "load_users (handleAuth_part003 ?s) (username ?s) \<noteq> None
            \<and> tutor_users_db ?b = tutor_users_db (handleAuth_part003 ?s)"
    using v by simp
  from C10_register_then_login [OF 1 2 a3 a4 a5] a6
  have A: "currentUser (handleAuth ?a) =
             Some \<lparr>user_username = username ?s, user_level = level ?s,
                   user_targetLanguage = targetLanguage ?s\<rparr>"
    by blast
  from C10_register_then_login [OF 1 2 b3 b4 b5] b6
  have B: "currentUser (handleAuth_part003 ?b) =
             Some \<lparr>user_username = username ?s, user_level = level ?s,
                   user_targetLanguage = targetLanguage ?s\<rparr>"
    by blast
  from A B show ?thesis by simp
qed

end
